theory Spec2Isabelle
  imports Main
begin

section \<open>Backup storage service of pkg/cloudprovider\<close>

text \<open>
  A shallow embedding of \<^verbatim>\<open>pkg/cloudprovider/backup_service.go\<close>. Two revisions of the
  file are at hand; the later one factors the formatting of the three object keys into
  \<^verbatim>\<open>getMetadataKey\<close>, \<^verbatim>\<open>getBackupKey\<close> and \<^verbatim>\<open>getBackupLogKey\<close> and adds the signed-URL
  methods, the earlier one calls \<^verbatim>\<open>fmt.Sprintf\<close> on the same format strings in place.
  The methods \<^verbatim>\<open>UploadBackup\<close>, \<^verbatim>\<open>GetAllBackups\<close> and \<^verbatim>\<open>DeleteBackup\<close> are otherwise
  the same text, so one model serves both.

  Go strings are byte sequences and are modelled as \<^typ>\<open>string\<close>.
\<close>

subsection \<open>Formatting\<close>

text \<open>
  \<^verbatim>\<open>fmt.Sprintf\<close> restricted to what the calls of this file need. The operands are
  given already rendered under their verb: the string itself for \<^verbatim>\<open>%s\<close>, the result of
  \<^verbatim>\<open>Error()\<close> for \<^verbatim>\<open>%v\<close> of an error, the name of the dynamic type for \<^verbatim>\<open>%T\<close>. The format
  is scanned from left to right; a verb consumes the next operand, \<^verbatim>\<open>%%\<close> prints a percent
  sign, a verb without an operand prints \<^verbatim>\<open>%!v(MISSING)\<close> and a trailing percent sign
  prints \<^verbatim>\<open>%!(NOVERB)\<close>. Operands are copied, never scanned. No call of this file passes
  more operands than verbs, and what Go prints for surplus operands is left out.
\<close>

fun Sprintf :: "string \<Rightarrow> string list \<Rightarrow> string" where
  "Sprintf [] args = []"
| "Sprintf [c] args = (if c = CHR ''%'' then ''%!(NOVERB)'' else [c])"
| "Sprintf (c # v # rest) args =
     (if c \<noteq> CHR ''%'' then c # Sprintf (v # rest) args
      else if v = CHR ''%'' then CHR ''%'' # Sprintf rest args
      else (case args of
              [] \<Rightarrow> ''%!'' @ [v] @ ''(MISSING)'' @ Sprintf rest []
            | a # as \<Rightarrow> a @ Sprintf rest as))"

subsection \<open>Object keys\<close>

definition metadataFileFormatString :: string where
  "metadataFileFormatString = ''%s/ark-backup.json''"

definition backupFileFormatString :: string where
  "backupFileFormatString = ''%s/%s.tar.gz''"

definition logFileFormatString :: string where
  "logFileFormatString = ''%s/%s.log.gz''"

definition getMetadataKey :: "string \<Rightarrow> string" where
  "getMetadataKey backup = Sprintf metadataFileFormatString [backup]"

definition getBackupKey :: "string \<Rightarrow> string" where
  "getBackupKey backup = Sprintf backupFileFormatString [backup, backup]"

definition getBackupLogKey :: "string \<Rightarrow> string" where
  "getBackupLogKey backup = Sprintf logFileFormatString [backup, backup]"

subsection \<open>Errors\<close>

text \<open>
  A Go \<^verbatim>\<open>error\<close> is an interface value; \<^verbatim>\<open>nil\<close> is \<open>None\<close> of \<open>error option\<close>. An
  error made by \<^verbatim>\<open>fmt.Errorf\<close>, or any error of an adapter or of the decoder, is known by
  its message; an \<^verbatim>\<open>Aggregate\<close> is the ordered list of the errors it holds.
\<close>

datatype error = ErrorString string | Aggregate "error list"

text \<open>
  The method \<^verbatim>\<open>Error()\<close>. An aggregate of one error prints that error, a longer one
  prints its members between brackets, separated by a comma and a space.
\<close>

fun Error :: "error \<Rightarrow> string" where
  "Error (ErrorString s) = s"
| "Error (Aggregate agg) =
     (case map Error agg of
        [] \<Rightarrow> []
      | [m] \<Rightarrow> m
      | m # ms \<Rightarrow> ''['' @ m @ concat (map (\<lambda>x. '', '' @ x) ms) @ '']'')"

definition Errorf :: "string \<Rightarrow> string list \<Rightarrow> error" where
  "Errorf format args = ErrorString (Sprintf format args)"

fun nonNil :: "error option list \<Rightarrow> error list" where
  "nonNil [] = []"
| "nonNil (None # errlist) = nonNil errlist"
| "nonNil (Some e # errlist) = e # nonNil errlist"

text \<open>
  Modelled from the spec: \<^verbatim>\<open>errors.NewAggregate\<close> of the imported package
  \<^verbatim>\<open>k8s.io/apimachinery/pkg/util/errors\<close>, whose text is not at hand. The spec calls its
  result a structured collection of the underlying errors that drops none of them, \<^verbatim>\<open>nil\<close>
  when there is no failure, and requires the error of an upload whose rollback succeeded to
  report the data-write failure only: \<^verbatim>\<open>nil\<close> entries of the slice are left out, and a
  slice with no other entry gives \<^verbatim>\<open>nil\<close>.
\<close>

definition NewAggregate :: "error option list \<Rightarrow> error option" where
  "NewAggregate errlist =
     (if length errlist = 0 then None
      else let errs = nonNil errlist in
        if length errs = 0 then None else Some (Aggregate errs))"

subsection \<open>Slices\<close>

text \<open>
  A Go slice is \<^verbatim>\<open>nil\<close> (\<open>None\<close>) or holds a sequence (\<open>Some xs\<close>); an empty slice that is
  not \<^verbatim>\<open>nil\<close> is \<open>Some []\<close>.
\<close>

type_synonym 'a slice = "'a list option"

definition append_slice :: "'a slice \<Rightarrow> 'a \<Rightarrow> 'a slice" where
  "append_slice s x = (case s of None \<Rightarrow> Some [x] | Some xs \<Rightarrow> Some (xs @ [x]))"

subsection \<open>The object storage adapter\<close>

text \<open>
  \<^verbatim>\<open>ObjectStorageAdapter\<close> is an interface declared in another file of the package; it
  is a parameter of the model. Its methods act on the state \<open>'s\<close> of the object store, which only the adapter
  reads and writes: each takes the state and returns its result with the new state. The
  body of an \<^verbatim>\<open>io.ReadSeeker\<close> given to \<^verbatim>\<open>PutObject\<close> is the string of its bytes. The
  \<^verbatim>\<open>io.ReadCloser\<close> of \<^verbatim>\<open>GetObject\<close> is known by what \<^verbatim>\<open>ioutil.ReadAll\<close> gets from it: a
  read error or the bytes. A method that returns a value and an error returns one or the
  other; the callers here look at the value only when the error is \<^verbatim>\<open>nil\<close>. The list of
  \<^verbatim>\<open>ListCommonPrefixes\<close> stands for the returned slice, which the caller only measures
  and ranges over, so that \<^verbatim>\<open>nil\<close> and the empty slice are both \<open>[]\<close>.
\<close>

datatype ReadCloser = ReadCloser (ReadAll: "error + string")

record 's ObjectStorageAdapter =
  PutObject :: "string \<Rightarrow> string \<Rightarrow> string \<Rightarrow> 's \<Rightarrow> error option \<times> 's"
  GetObject :: "string \<Rightarrow> string \<Rightarrow> 's \<Rightarrow> (error + ReadCloser) \<times> 's"
  DeleteObject :: "string \<Rightarrow> string \<Rightarrow> 's \<Rightarrow> error option \<times> 's"
  ListCommonPrefixes :: "string \<Rightarrow> string \<Rightarrow> 's \<Rightarrow> (error + string list) \<times> 's"
  CreateSignedURL :: "string \<Rightarrow> string \<Rightarrow> int \<Rightarrow> 's \<Rightarrow> (error + string) \<times> 's"

text \<open>
  What a method of the service leaves behind: the state of the object store, the calls it
  made on the adapter, in order, and the lines it gave to \<^verbatim>\<open>glog\<close>. A line of
  \<^verbatim>\<open>glog.V(n).Infof\<close> is kept with its level \<open>n\<close>.
\<close>

datatype call =
  PutObjectCall string string string
| GetObjectCall string string
| DeleteObjectCall string string
| ListCommonPrefixesCall string string
| CreateSignedURLCall string string int

datatype logline = ErrorLine string | InfoLine nat string

record 's world =
  storage :: 's
  calls :: "call list"
  glog :: "logline list"

definition glog_Errorf :: "string \<Rightarrow> string list \<Rightarrow> 's world \<Rightarrow> 's world" where
  "glog_Errorf format args w = w\<lparr>glog := glog w @ [ErrorLine (Sprintf format args)]\<rparr>"

definition glog_V_Infof :: "nat \<Rightarrow> string \<Rightarrow> string list \<Rightarrow> 's world \<Rightarrow> 's world" where
  "glog_V_Infof n format args w = w\<lparr>glog := glog w @ [InfoLine n (Sprintf format args)]\<rparr>"

subsection \<open>The backup service\<close>

record 's backupService =
  objectStorage :: "'s ObjectStorageAdapter"

definition NewBackupService :: "'s ObjectStorageAdapter \<Rightarrow> 's backupService" where
  "NewBackupService adapter = \<lparr>objectStorage = adapter\<rparr>"

text \<open>The calls \<^verbatim>\<open>br.objectStorage.M(...)\<close>: the adapter's method, and the call recorded.\<close>

definition objectStorage_PutObject ::
  "'s backupService \<Rightarrow> string \<Rightarrow> string \<Rightarrow> string \<Rightarrow> 's world \<Rightarrow> error option \<times> 's world" where
  "objectStorage_PutObject br bucket key body w =
     (case PutObject (objectStorage br) bucket key body (storage w) of
        (err, s) \<Rightarrow> (err, w\<lparr>storage := s, calls := calls w @ [PutObjectCall bucket key body]\<rparr>))"

definition objectStorage_GetObject ::
  "'s backupService \<Rightarrow> string \<Rightarrow> string \<Rightarrow> 's world \<Rightarrow> (error + ReadCloser) \<times> 's world" where
  "objectStorage_GetObject br bucket key w =
     (case GetObject (objectStorage br) bucket key (storage w) of
        (res, s) \<Rightarrow> (res, w\<lparr>storage := s, calls := calls w @ [GetObjectCall bucket key]\<rparr>))"

definition objectStorage_DeleteObject ::
  "'s backupService \<Rightarrow> string \<Rightarrow> string \<Rightarrow> 's world \<Rightarrow> error option \<times> 's world" where
  "objectStorage_DeleteObject br bucket key w =
     (case DeleteObject (objectStorage br) bucket key (storage w) of
        (err, s) \<Rightarrow> (err, w\<lparr>storage := s, calls := calls w @ [DeleteObjectCall bucket key]\<rparr>))"

definition objectStorage_ListCommonPrefixes ::
  "'s backupService \<Rightarrow> string \<Rightarrow> string \<Rightarrow> 's world \<Rightarrow> (error + string list) \<times> 's world" where
  "objectStorage_ListCommonPrefixes br bucket delimiter w =
     (case ListCommonPrefixes (objectStorage br) bucket delimiter (storage w) of
        (res, s) \<Rightarrow>
          (res, w\<lparr>storage := s, calls := calls w @ [ListCommonPrefixesCall bucket delimiter]\<rparr>))"

definition objectStorage_CreateSignedURL ::
  "'s backupService \<Rightarrow> string \<Rightarrow> string \<Rightarrow> int \<Rightarrow> 's world \<Rightarrow> (error + string) \<times> 's world" where
  "objectStorage_CreateSignedURL br bucket key ttl w =
     (case CreateSignedURL (objectStorage br) bucket key ttl (storage w) of
        (res, s) \<Rightarrow>
          (res, w\<lparr>storage := s, calls := calls w @ [CreateSignedURLCall bucket key ttl]\<rparr>))"

definition UploadBackup ::
  "'s backupService \<Rightarrow> string \<Rightarrow> string \<Rightarrow> string \<Rightarrow> string \<Rightarrow> string \<Rightarrow> 's world
    \<Rightarrow> error option \<times> 's world" where
  "UploadBackup br bucket backupName metadata backup log w =
     (let metadataKey = getMetadataKey backupName in
      case objectStorage_PutObject br bucket metadataKey metadata w of
        (Some err, w1) \<Rightarrow> (Some err, w1)
      | (None, w1) \<Rightarrow>
          (case objectStorage_PutObject br bucket (getBackupKey backupName) backup w1 of
             (Some err, w2) \<Rightarrow>
               (case objectStorage_DeleteObject br bucket metadataKey w2 of
                  (deleteErr, w3) \<Rightarrow> (NewAggregate [Some err, deleteErr], w3))
           | (None, w2) \<Rightarrow>
               (let logKey = getBackupLogKey backupName in
                case objectStorage_PutObject br bucket logKey log w2 of
                  (Some err, w3) \<Rightarrow>
                    (None, glog_Errorf ''error uploading %s/%s: %v'' [bucket, logKey, Error err] w3)
                | (None, w3) \<Rightarrow> (None, w3))))"

definition DownloadBackup ::
  "'s backupService \<Rightarrow> string \<Rightarrow> string \<Rightarrow> 's world \<Rightarrow> (error + ReadCloser) \<times> 's world" where
  "DownloadBackup br bucket backupName w =
     objectStorage_GetObject br bucket (getBackupKey backupName) w"

text \<open>
  The decoder \<^verbatim>\<open>scheme.Codecs.UniversalDecoder(api.SchemeGroupVersion)\<close> and the type
  \<^verbatim>\<open>api.Backup\<close> are declared in other packages and are parameters: \<open>'b\<close> is what a
  \<^verbatim>\<open>*api.Backup\<close> points to, and \<^verbatim>\<open>Decode(data, nil, nil)\<close> returns an error or an object.
  An object is a \<^verbatim>\<open>*api.Backup\<close> or something else, known by the name \<^verbatim>\<open>%T\<close> prints for it.
\<close>

datatype 'b Object = BackupPtr 'b | OtherObject string

type_synonym 'b Decoder = "string \<Rightarrow> error + 'b Object"

text \<open>
  The function literal in the loop of \<^verbatim>\<open>GetAllBackups\<close>. It returns its error and the
  slice \<^verbatim>\<open>output\<close> of the enclosing function, which it appends to. The deferred
  \<^verbatim>\<open>res.Close()\<close> is a method of the reader whose result is dropped.
\<close>

definition fetchBackup ::
  "'s backupService \<Rightarrow> 'b Decoder \<Rightarrow> string \<Rightarrow> string \<Rightarrow> 'b slice \<Rightarrow> 's world
    \<Rightarrow> (error option \<times> 'b slice) \<times> 's world" where
  "fetchBackup br decoder bucket backupDir output w =
     (let key = getMetadataKey backupDir in
      case objectStorage_GetObject br bucket key w of
        (Inl err, w1) \<Rightarrow> ((Some err, output), w1)
      | (Inr res, w1) \<Rightarrow>
          (case ReadAll res of
             Inl err \<Rightarrow> ((Some err, output), w1)
           | Inr data \<Rightarrow>
               (case decoder data of
                  Inl err \<Rightarrow> ((Some err, output), w1)
                | Inr (OtherObject T) \<Rightarrow>
                    ((Some (Errorf ''unexpected type for %s/%s: %T'' [bucket, key, T]), output), w1)
                | Inr (BackupPtr backup) \<Rightarrow> ((None, append_slice output backup), w1))))"

text \<open>The loop \<^verbatim>\<open>for _, backupDir := range prefixes\<close>, from the prefixes still to visit.\<close>

fun rangePrefixes ::
  "'s backupService \<Rightarrow> 'b Decoder \<Rightarrow> string \<Rightarrow> string list \<Rightarrow> 'b slice \<Rightarrow> 's world
    \<Rightarrow> ('b slice \<times> error option) \<times> 's world" where
  "rangePrefixes br decoder bucket [] output w = ((output, None), w)"
| "rangePrefixes br decoder bucket (backupDir # prefixes) output w =
     (case fetchBackup br decoder bucket backupDir output w of
        ((Some err, output'), w') \<Rightarrow> ((None, Some err), w')
      | ((None, output'), w') \<Rightarrow> rangePrefixes br decoder bucket prefixes output' w')"

definition GetAllBackups ::
  "'s backupService \<Rightarrow> 'b Decoder \<Rightarrow> string \<Rightarrow> 's world
    \<Rightarrow> ('b slice \<times> error option) \<times> 's world" where
  "GetAllBackups br decoder bucket w =
     (case objectStorage_ListCommonPrefixes br bucket ''/'' w of
        (Inl err, w1) \<Rightarrow> ((None, Some err), w1)
      | (Inr prefixes, w1) \<Rightarrow>
          if length prefixes = 0 then ((Some [], None), w1)
          else rangePrefixes br decoder bucket prefixes (Some []) w1)"

definition DeleteBackup ::
  "'s backupService \<Rightarrow> string \<Rightarrow> string \<Rightarrow> 's world \<Rightarrow> error option \<times> 's world" where
  "DeleteBackup br bucket backupName w =
     (let errs = [];
          key = getBackupKey backupName;
          w1 = glog_V_Infof 4 ''Trying to delete bucket=%s, key=%s'' [bucket, key] w
      in case objectStorage_DeleteObject br bucket key w1 of
        (err, w2) \<Rightarrow>
          (let errs = (if err \<noteq> None then errs @ [err] else errs);
               key = getMetadataKey backupName;
               w3 = glog_V_Infof 4 ''Trying to delete bucket=%s, key=%s'' [bucket, key] w2
           in case objectStorage_DeleteObject br bucket key w3 of
             (err, w4) \<Rightarrow>
               (let errs = (if err \<noteq> None then errs @ [err] else errs)
                in (NewAggregate errs, w4))))"

definition CreateBackupLogSignedURL ::
  "'s backupService \<Rightarrow> string \<Rightarrow> string \<Rightarrow> int \<Rightarrow> 's world \<Rightarrow> (error + string) \<times> 's world" where
  "CreateBackupLogSignedURL br bucket backupName ttl w =
     objectStorage_CreateSignedURL br bucket (getBackupLogKey backupName) ttl w"

definition CreateBackupSignedURL ::
  "'s backupService \<Rightarrow> string \<Rightarrow> string \<Rightarrow> int \<Rightarrow> 's world \<Rightarrow> (error + string) \<times> 's world" where
  "CreateBackupSignedURL br bucket backupName ttl w =
     objectStorage_CreateSignedURL br bucket (getBackupKey backupName) ttl w"

subsection \<open>The cache-backed service\<close>

text \<open>
  Modelled from the spec: the listing cache, that is \<^verbatim>\<open>NewBackupCache\<close>, its refresh task
  and its method \<^verbatim>\<open>GetAllBackups\<close>, which this file only calls. The spec gives the cache
  one snapshot for each bucket, empty until the first successful refresh; a successful
  refresh replaces the snapshot wholesale; a failed refresh keeps it and reports the
  failure to an observability channel; after the lifecycle context is cancelled no refresh
  happens any more; a read returns the current snapshot and no error. The delegate is a
  \<^verbatim>\<open>BackupGetter\<close> over a state \<open>'d\<close> of its own.
\<close>

record ('d, 'b) backupCache =
  delegate :: "string \<Rightarrow> 'd \<Rightarrow> ('b slice \<times> error option) \<times> 'd"
  resyncPeriod :: int
  snapshot :: "string \<Rightarrow> 'b list option"
  reported :: "error list"
  stopped :: bool

definition NewBackupCache ::
  "(string \<Rightarrow> 'd \<Rightarrow> ('b slice \<times> error option) \<times> 'd) \<Rightarrow> int \<Rightarrow> ('d, 'b) backupCache" where
  "NewBackupCache getter period =
     \<lparr>delegate = getter, resyncPeriod = period, snapshot = (\<lambda>bucketName. None),
      reported = [], stopped = False\<rparr>"

definition backupCache_refresh ::
  "string \<Rightarrow> ('d, 'b) backupCache \<times> 'd \<Rightarrow> ('d, 'b) backupCache \<times> 'd" where
  "backupCache_refresh bucketName cd =
     (case cd of (c, d) \<Rightarrow>
        if stopped c then (c, d)
        else (case delegate c bucketName d of
                ((backups, None), d') \<Rightarrow>
                  (c\<lparr>snapshot := (snapshot c)
                       (bucketName := Some (case backups of None \<Rightarrow> [] | Some bs \<Rightarrow> bs))\<rparr>, d')
              | ((backups, Some err), d') \<Rightarrow> (c\<lparr>reported := reported c @ [err]\<rparr>, d')))"

definition backupCache_GetAllBackups ::
  "('d, 'b) backupCache \<Rightarrow> string \<Rightarrow> 'b slice \<times> error option" where
  "backupCache_GetAllBackups c bucketName =
     (case snapshot c bucketName of None \<Rightarrow> (Some [], None) | Some bs \<Rightarrow> (Some bs, None))"

text \<open>
  The decorator of the source: the embedded delegate and the cache. Its \<^verbatim>\<open>GetAllBackups\<close>
  hands the call to the cache.
\<close>

record ('s, 'b) cachedBackupService =
  BackupService :: "'s backupService"
  cache :: "('s world, 'b) backupCache"

definition NewBackupServiceWithCachedBackupGetter ::
  "'s backupService \<Rightarrow> 'b Decoder \<Rightarrow> int \<Rightarrow> ('s, 'b) cachedBackupService" where
  "NewBackupServiceWithCachedBackupGetter br decoder period =
     \<lparr>BackupService = br, cache = NewBackupCache (GetAllBackups br decoder) period\<rparr>"

definition cachedBackupService_GetAllBackups ::
  "('s, 'b) cachedBackupService \<Rightarrow> string \<Rightarrow> 'b slice \<times> error option" where
  "cachedBackupService_GetAllBackups c bucketName =
     backupCache_GetAllBackups (cache c) bucketName"

text \<open>
  A run of the cache-backed service is a sequence of events: an attempt of the refresh
  task on a bucket, the cancellation of the lifecycle context, or anything else that
  changes the object store in between. Beside the service and the world, a run keeps the
  history of what the delegate returned to each refresh attempt.
\<close>

datatype 's event = Refresh string | Cancel | Outside "'s world \<Rightarrow> 's world"

type_synonym 'b history = "(string \<times> ('b slice \<times> error option)) list"

fun step ::
  "('s, 'b) cachedBackupService \<times> 's world \<times> 'b history \<Rightarrow> 's event
    \<Rightarrow> ('s, 'b) cachedBackupService \<times> 's world \<times> 'b history" where
  "step (c, w, h) (Refresh bucketName) =
     (case backupCache_refresh bucketName (cache c, w) of
        (cache', w') \<Rightarrow>
          (c\<lparr>cache := cache'\<rparr>, w',
           if stopped (cache c) then h
           else h @ [(bucketName, fst (delegate (cache c) bucketName w))]))"
| "step (c, w, h) Cancel = (c\<lparr>cache := (cache c)\<lparr>stopped := True\<rparr>\<rparr>, w, h)"
| "step (c, w, h) (Outside f) = (c, f w, h)"

definition run ::
  "('s, 'b) cachedBackupService \<times> 's world \<times> 'b history \<Rightarrow> 's event list
    \<Rightarrow> ('s, 'b) cachedBackupService \<times> 's world \<times> 'b history" where
  "run st evs = foldl step st evs"

text \<open>
  The snapshot of the most recent successful refresh of a bucket in a history, empty if
  there is none, and the failures of the refreshes of a history, in order.
\<close>

definition succeeded :: "string \<Rightarrow> string \<times> ('b slice \<times> error option) \<Rightarrow> bool" where
  "succeeded bucketName r = (fst r = bucketName \<and> snd (snd r) = None)"

definition collection :: "'b slice \<Rightarrow> 'b list" where
  "collection backups = (case backups of None \<Rightarrow> [] | Some bs \<Rightarrow> bs)"

definition lastSnapshot :: "string \<Rightarrow> 'b history \<Rightarrow> 'b list" where
  "lastSnapshot bucketName h =
     (case rev (filter (succeeded bucketName) h) of
        [] \<Rightarrow> []
      | r # earlier \<Rightarrow> collection (fst (snd r)))"

definition refreshFailures :: "'b history \<Rightarrow> error list" where
  "refreshFailures h =
     concat (map (\<lambda>r. case snd (snd r) of None \<Rightarrow> [] | Some err \<Rightarrow> [err]) h)"

text \<open>The cache agrees with a history: the invariant of a run.\<close>

definition cacheAgrees :: "('s, 'b) cachedBackupService \<times> 's world \<times> 'b history \<Rightarrow> bool" where
  "cacheAgrees st =
     (case st of (c, w, h) \<Rightarrow>
        (\<forall>b. snapshot (cache c) b =
           (case rev (filter (succeeded b) h) of
              [] \<Rightarrow> None
            | r # earlier \<Rightarrow> Some (collection (fst (snd r)))))
        \<and> reported (cache c) = refreshFailures h)"

subsection \<open>Properties of an adapter, and of an error\<close>

text \<open>
  An object is absent from the store when \<^verbatim>\<open>GetObject\<close> fails for its key. An adapter
  removes on delete when every \<^verbatim>\<open>DeleteObject\<close> that returns \<^verbatim>\<open>nil\<close> leaves the object
  absent.
\<close>

definition objectAbsent :: "'s ObjectStorageAdapter \<Rightarrow> string \<Rightarrow> string \<Rightarrow> 's \<Rightarrow> bool" where
  "objectAbsent adapter bucket key s =
     (case fst (GetObject adapter bucket key s) of Inl err \<Rightarrow> True | Inr res \<Rightarrow> False)"

definition deleteRemoves :: "'s ObjectStorageAdapter \<Rightarrow> bool" where
  "deleteRemoves adapter =
     (\<forall>bucket key s s'. DeleteObject adapter bucket key s = (None, s')
        \<longrightarrow> objectAbsent adapter bucket key s')"

text \<open>
  What \<^verbatim>\<open>GetObject\<close> returned decodes to the backup \<open>b\<close>: it is a reader, reading it
  gives bytes, and the decoder makes the \<^verbatim>\<open>*api.Backup\<close> \<open>b\<close> of them.
\<close>

definition decodesTo :: "'b Decoder \<Rightarrow> (error + ReadCloser) \<Rightarrow> 'b \<Rightarrow> bool" where
  "decodesTo decoder r b =
     (case r of
        Inl err \<Rightarrow> False
      | Inr res \<Rightarrow>
          (case ReadAll res of
             Inl err \<Rightarrow> False
           | Inr data \<Rightarrow> decoder data = Inr (BackupPtr b)))"

text \<open>
  The metadata objects of the prefixes \<open>ps\<close> are fetched in order, from the state \<open>s0\<close>
  of the object store, and decode to the backups \<open>bs\<close>: the \<open>i\<close>-th \<^verbatim>\<open>GetObject\<close>, on the
  metadata key of the \<open>i\<close>-th prefix, starts in the state the call before it left
  (\<open>s0\<close> for the first), leaves the state \<open>ss ! i\<close>, and what it returns decodes to
  \<open>bs ! i\<close>.
\<close>

definition fetchedInOrder ::
  "'s ObjectStorageAdapter \<Rightarrow> 'b Decoder \<Rightarrow> string \<Rightarrow> string list \<Rightarrow> 's \<Rightarrow> 's list \<Rightarrow> 'b list
    \<Rightarrow> bool" where
  "fetchedInOrder adapter decoder bucket ps s0 ss bs =
     (length ss = length ps \<and> length bs = length ps \<and>
      (\<forall>i<length ps.
         snd (GetObject adapter bucket (getMetadataKey (ps ! i)) ((s0 # ss) ! i)) = ss ! i \<and>
         decodesTo decoder
           (fst (GetObject adapter bucket (getMetadataKey (ps ! i)) ((s0 # ss) ! i))) (bs ! i)))"

text \<open>An error reports a bucket and a key when its message holds both.\<close>

fun contains :: "string \<Rightarrow> string \<Rightarrow> bool" where
  "contains [] substr = (substr = [])"
| "contains (c # s) substr = (take (length substr) (c # s) = substr \<or> contains s substr)"

definition reportsBucketAndKey :: "error \<Rightarrow> string \<Rightarrow> string \<Rightarrow> bool" where
  "reportsBucketAndKey err bucket key = (contains (Error err) bucket \<and> contains (Error err) key)"

subsection \<open>An adapter in memory\<close>

text \<open>
  A concrete adapter, for evaluating the service: the objects of the store as an
  association list from bucket and key to body, the keys for which \<^verbatim>\<open>PutObject\<close> and
  \<^verbatim>\<open>DeleteObject\<close> fail, and a decoder that reads \<open>backup:N\<close> as the backup \<open>N\<close>,
  \<open>restore:N\<close> as an object of another type and fails on anything else.
\<close>

record memStore =
  objects :: "((string \<times> string) \<times> string) list"
  putFails :: "string list"
  deleteFails :: "string list"

definition withoutObject ::
  "string \<Rightarrow> string \<Rightarrow> ((string \<times> string) \<times> string) list \<Rightarrow> ((string \<times> string) \<times> string) list" where
  "withoutObject bucket key objs = filter (\<lambda>kv. fst kv \<noteq> (bucket, key)) objs"

definition memAdapter :: "memStore ObjectStorageAdapter" where
  "memAdapter =
     \<lparr>PutObject = (\<lambda>bucket key body s.
        if key \<in> set (putFails s) then (Some (ErrorString (''put failed: '' @ key)), s)
        else (None, s\<lparr>objects := withoutObject bucket key (objects s) @ [((bucket, key), body)]\<rparr>)),
      GetObject = (\<lambda>bucket key s.
        case map_of (objects s) (bucket, key) of
          None \<Rightarrow> (Inl (ErrorString ''not found''), s)
        | Some body \<Rightarrow> (Inr (ReadCloser (Inr body)), s)),
      DeleteObject = (\<lambda>bucket key s.
        if key \<in> set (deleteFails s) then (Some (ErrorString (''delete failed: '' @ key)), s)
        else (None, s\<lparr>objects := withoutObject bucket key (objects s)\<rparr>)),
      ListCommonPrefixes = (\<lambda>bucket delimiter s.
        (Inr (remdups (map (\<lambda>kv. takeWhile (\<lambda>c. [c] \<noteq> delimiter) (snd (fst kv)))
           (filter (\<lambda>kv. fst (fst kv) = bucket) (objects s)))), s)),
      CreateSignedURL = (\<lambda>bucket key ttl s. (Inr (''https://'' @ bucket @ ''/'' @ key), s))\<rparr>"

definition memService :: "memStore backupService" where
  "memService = NewBackupService memAdapter"

definition memState ::
  "((string \<times> string) \<times> string) list \<Rightarrow> string list \<Rightarrow> string list \<Rightarrow> memStore" where
  "memState objs pf df = \<lparr>objects = objs, putFails = pf, deleteFails = df\<rparr>"

definition memWorld ::
  "((string \<times> string) \<times> string) list \<Rightarrow> string list \<Rightarrow> string list \<Rightarrow> memStore world" where
  "memWorld objs pf df = \<lparr>storage = memState objs pf df, calls = [], glog = []\<rparr>"

definition testDecoder :: "string Decoder" where
  "testDecoder data =
     (if take 7 data = ''backup:'' then Inr (BackupPtr (drop 7 data))
      else if take 8 data = ''restore:'' then Inr (OtherObject ''*v1.Restore'')
      else Inl (ErrorString ''invalid character in payload''))"

section \<open>Properties\<close>

subsection \<open>Auxiliary facts\<close>

lemma getMetadataKey_eq: "getMetadataKey N = N @ ''/ark-backup.json''"
  by (simp add: getMetadataKey_def metadataFileFormatString_def)

lemma getBackupKey_eq: "getBackupKey N = N @ ''/'' @ N @ ''.tar.gz''"
  by (simp add: getBackupKey_def backupFileFormatString_def)

lemma getBackupLogKey_eq: "getBackupLogKey N = N @ ''/'' @ N @ ''.log.gz''"
  by (simp add: getBackupLogKey_def logFileFormatString_def)

lemmas mem_defs = memService_def NewBackupService_def memAdapter_def memWorld_def memState_def
  withoutObject_def getMetadataKey_eq getBackupKey_eq getBackupLogKey_eq

lemma Sprintf_upload_line:
  "Sprintf ''error uploading %s/%s: %v'' [bucket, logKey, msg]
     = ''error uploading '' @ bucket @ ''/'' @ logKey @ '': '' @ msg"
  by simp

lemma Sprintf_delete_line:
  "Sprintf ''Trying to delete bucket=%s, key=%s'' [bucket, key]
     = ''Trying to delete bucket='' @ bucket @ '', key='' @ key"
  by simp

lemma logKey_neq_backupKey: "getBackupLogKey N \<noteq> getBackupKey N"
  by (simp add: getBackupLogKey_eq getBackupKey_eq)

lemma logKey_neq_metadataKey: "getBackupLogKey N \<noteq> getMetadataKey N"
proof
  assume "getBackupLogKey N = getMetadataKey N"
  then have "last (getBackupLogKey N) = last (getMetadataKey N)" by simp
  then show False by (simp add: getBackupLogKey_eq getMetadataKey_eq)
qed

lemma memAdapter_deleteRemoves: "deleteRemoves memAdapter"
proof -
  have "map_of (filter (\<lambda>kv. fst kv \<noteq> k) objs) k = None"
    for k :: "string \<times> string" and objs :: "((string \<times> string) \<times> string) list"
    by (induction objs) auto
  then show ?thesis
    by (auto simp add: deleteRemoves_def objectAbsent_def memAdapter_def withoutObject_def
        split: if_splits)
qed

lemma fetchBackup_success:
  assumes "decodesTo decoder
             (fst (GetObject (objectStorage br) bucket (getMetadataKey p) (storage w))) b"
  shows "fetchBackup br decoder bucket p out w
           = ((None, append_slice out b),
              w\<lparr>storage := snd (GetObject (objectStorage br) bucket (getMetadataKey p) (storage w)),
                calls := calls w @ [GetObjectCall bucket (getMetadataKey p)]\<rparr>)"
  using assms
  by (auto simp add: fetchBackup_def objectStorage_GetObject_def decodesTo_def Let_def
      split: prod.splits sum.splits Object.splits)

lemma fetchBackup_None:
  assumes "fetchBackup br decoder bucket p out w = ((None, out'), w')"
  shows "\<exists>b. decodesTo decoder
               (fst (GetObject (objectStorage br) bucket (getMetadataKey p) (storage w))) b
           \<and> out' = append_slice out b
           \<and> w' = w\<lparr>storage := snd (GetObject (objectStorage br) bucket (getMetadataKey p) (storage w)),
                    calls := calls w @ [GetObjectCall bucket (getMetadataKey p)]\<rparr>"
  using assms
  by (auto simp add: fetchBackup_def objectStorage_GetObject_def decodesTo_def Let_def
      split: prod.splits sum.splits Object.splits)

lemma fetchBackup_failure:
  assumes "GetObject (objectStorage br) bucket (getMetadataKey p) (storage w) = (r, s2)"
      and "r = Inl err
           \<or> (\<exists>res. r = Inr res \<and>
                (ReadAll res = Inl err
                 \<or> (\<exists>data. ReadAll res = Inr data \<and>
                      (decoder data = Inl err
                       \<or> (\<exists>T. decoder data = Inr (OtherObject T) \<and>
                            err = Errorf ''unexpected type for %s/%s: %T''
                                    [bucket, getMetadataKey p, T])))))"
  shows "fetchBackup br decoder bucket p out w
           = ((Some err, out),
              w\<lparr>storage := s2, calls := calls w @ [GetObjectCall bucket (getMetadataKey p)]\<rparr>)"
  using assms
  by (auto simp add: fetchBackup_def objectStorage_GetObject_def Let_def
      split: prod.splits sum.splits Object.splits)

lemma rangePrefixes_append:
  "rangePrefixes br decoder bucket ps1 out w = ((out1, None), w1)
     \<Longrightarrow> rangePrefixes br decoder bucket (ps1 @ ps2) out w
           = rangePrefixes br decoder bucket ps2 out1 w1"
proof (induction ps1 arbitrary: out w)
  case Nil
  then show ?case by simp
next
  case (Cons p ps1)
  then show ?case
    by (auto split: prod.splits option.splits)
qed

lemma fetchedInOrder_Nil:
  "fetchedInOrder adapter decoder bucket [] s0 ss bs \<longleftrightarrow> ss = [] \<and> bs = []"
  by (auto simp add: fetchedInOrder_def)

lemma fetchedInOrder_Cons:
  "fetchedInOrder adapter decoder bucket (p # ps) s0 (s1 # ss) (b # bs) \<longleftrightarrow>
     snd (GetObject adapter bucket (getMetadataKey p) s0) = s1
     \<and> decodesTo decoder (fst (GetObject adapter bucket (getMetadataKey p) s0)) b
     \<and> fetchedInOrder adapter decoder bucket ps s1 ss bs"
  by (auto simp add: fetchedInOrder_def All_less_Suc2)

lemma rangePrefixes_success_elim:
  "rangePrefixes br decoder bucket ps (Some acc) w = ((out, None), w')
     \<Longrightarrow> \<exists>bs ss. out = Some (acc @ bs)
           \<and> fetchedInOrder (objectStorage br) decoder bucket ps (storage w) ss bs
           \<and> w' = w\<lparr>storage := last (storage w # ss),
                    calls := calls w @ map (\<lambda>d. GetObjectCall bucket (getMetadataKey d)) ps\<rparr>"
proof (induction ps arbitrary: acc w)
  case Nil
  then show ?case by (simp add: fetchedInOrder_Nil)
next
  case (Cons p ps)
  from Cons.prems obtain out1 w1 where
    f: "fetchBackup br decoder bucket p (Some acc) w = ((None, out1), w1)" and
    r: "rangePrefixes br decoder bucket ps out1 w1 = ((out, None), w')"
    by (auto split: prod.splits option.splits)
  from fetchBackup_None [OF f] obtain b where
    d: "decodesTo decoder
          (fst (GetObject (objectStorage br) bucket (getMetadataKey p) (storage w))) b" and
    o: "out1 = Some (acc @ [b])" and
    w1: "w1 = w\<lparr>storage := snd (GetObject (objectStorage br) bucket (getMetadataKey p) (storage w)),
                 calls := calls w @ [GetObjectCall bucket (getMetadataKey p)]\<rparr>"
    by (auto simp add: append_slice_def)
  from Cons.IH [of "acc @ [b]" w1] r o obtain bs ss where
    out: "out = Some ((acc @ [b]) @ bs)" and
    fi: "fetchedInOrder (objectStorage br) decoder bucket ps (storage w1) ss bs" and
    w': "w' = w1\<lparr>storage := last (storage w1 # ss),
                  calls := calls w1 @ map (\<lambda>d. GetObjectCall bucket (getMetadataKey d)) ps\<rparr>"
    by auto
  have "fetchedInOrder (objectStorage br) decoder bucket (p # ps) (storage w)
          (storage w1 # ss) (b # bs)"
    using d fi w1 by (simp add: fetchedInOrder_Cons)
  moreover have "out = Some (acc @ b # bs)" using out by simp
  moreover have "w' = w\<lparr>storage := last (storage w # storage w1 # ss),
      calls := calls w @ map (\<lambda>d. GetObjectCall bucket (getMetadataKey d)) (p # ps)\<rparr>"
    using w' w1 by simp
  ultimately show ?case by blast
qed

lemma rangePrefixes_success_intro:
  "fetchedInOrder (objectStorage br) decoder bucket ps (storage w) ss bs
     \<Longrightarrow> rangePrefixes br decoder bucket ps (Some acc) w
           = ((Some (acc @ bs), None),
              w\<lparr>storage := last (storage w # ss),
                calls := calls w @ map (\<lambda>d. GetObjectCall bucket (getMetadataKey d)) ps\<rparr>)"
proof (induction ps arbitrary: acc w ss bs)
  case Nil
  then show ?case by (simp add: fetchedInOrder_Nil)
next
  case (Cons p ps)
  from Cons.prems obtain s1 ss' b bs' where
    ss: "ss = s1 # ss'" and bs: "bs = b # bs'"
    by (cases ss; cases bs) (auto simp add: fetchedInOrder_def)
  let ?w1 = "w\<lparr>storage := s1, calls := calls w @ [GetObjectCall bucket (getMetadataKey p)]\<rparr>"
  from Cons.prems ss bs have
    s1: "snd (GetObject (objectStorage br) bucket (getMetadataKey p) (storage w)) = s1" and
    d: "decodesTo decoder
          (fst (GetObject (objectStorage br) bucket (getMetadataKey p) (storage w))) b" and
    fi: "fetchedInOrder (objectStorage br) decoder bucket ps (storage ?w1) ss' bs'"
    by (simp_all add: fetchedInOrder_Cons)
  have f: "fetchBackup br decoder bucket p (Some acc) w = ((None, Some (acc @ [b])), ?w1)"
    using fetchBackup_success [OF d, of "Some acc"] s1 by (simp add: append_slice_def)
  show ?case
    using f Cons.IH [OF fi, of "acc @ [b]"] ss bs by simp
qed

lemma Sprintf_unexpected_type:
  "Sprintf ''unexpected type for %s/%s: %T'' [bucket, key, T]
     = ''unexpected type for '' @ bucket @ ''/'' @ key @ '': '' @ T"
  by simp

lemma contains_infix: "contains (xs @ sub @ ys) sub"
proof (induction xs)
  case Nil
  show ?case
  proof (cases "sub @ ys")
    case Nil
    then show ?thesis by simp
  next
    case (Cons c s)
    have "take (length sub) (sub @ ys) = sub" by simp
    with Cons show ?thesis by simp
  qed
next
  case (Cons x xs)
  then show ?case by simp
qed

lemma unexpected_type_reports:
  "reportsBucketAndKey (Errorf ''unexpected type for %s/%s: %T'' [bucket, key, T]) bucket key"
  using contains_infix [of "''unexpected type for ''" bucket "''/'' @ key @ '': '' @ T"]
    contains_infix [of "''unexpected type for '' @ bucket @ ''/''" key "'': '' @ T"]
  by (simp add: reportsBucketAndKey_def Errorf_def Sprintf_unexpected_type)

lemma rangePrefixes_error_nil:
  "rangePrefixes br decoder bucket ps acc w = ((out, Some err), w') \<Longrightarrow> out = None"
  by (induction ps arbitrary: acc w) (auto split: prod.splits option.splits)

lemma GetAllBackups_error_nil:
  "GetAllBackups br decoder bucket w = ((out, Some err), w') \<Longrightarrow> out = None"
  by (auto simp add: GetAllBackups_def split: prod.splits sum.splits if_splits
      dest: rangePrefixes_error_nil)

lemma GetAllBackups_failing_candidate:
  assumes "ListCommonPrefixes (objectStorage br) bucket ''/'' (storage w)
             = (Inr (ps1 @ p # ps2), s0)"
      and "fetchedInOrder (objectStorage br) decoder bucket ps1 s0 ss bs"
      and "GetObject (objectStorage br) bucket (getMetadataKey p) (last (s0 # ss)) = (r, s2)"
      and "r = Inl err
           \<or> (\<exists>res. r = Inr res \<and>
                (ReadAll res = Inl err
                 \<or> (\<exists>data. ReadAll res = Inr data \<and>
                      (decoder data = Inl err
                       \<or> (\<exists>T. decoder data = Inr (OtherObject T) \<and>
                            err = Errorf ''unexpected type for %s/%s: %T''
                                    [bucket, getMetadataKey p, T])))))"
  shows "GetAllBackups br decoder bucket w
           = ((None, Some err),
              w\<lparr>storage := s2,
                calls := calls w @ ListCommonPrefixesCall bucket ''/''
                  # map (\<lambda>d. GetObjectCall bucket (getMetadataKey d)) (ps1 @ [p])\<rparr>)"
proof -
  let ?w0 = "w\<lparr>storage := s0, calls := calls w @ [ListCommonPrefixesCall bucket ''/'']\<rparr>"
  let ?w1 = "?w0\<lparr>storage := last (storage ?w0 # ss),
      calls := calls ?w0 @ map (\<lambda>d. GetObjectCall bucket (getMetadataKey d)) ps1\<rparr>"
  have fi: "fetchedInOrder (objectStorage br) decoder bucket ps1 (storage ?w0) ss bs"
    using assms(2) by simp
  have r1: "rangePrefixes br decoder bucket ps1 (Some []) ?w0 = ((Some ([] @ bs), None), ?w1)"
    by (rule rangePrefixes_success_intro [OF fi])
  have g: "GetObject (objectStorage br) bucket (getMetadataKey p) (storage ?w1) = (r, s2)"
    using assms(3) by simp
  have f: "fetchBackup br decoder bucket p (Some ([] @ bs)) ?w1
             = ((Some err, Some ([] @ bs)),
                ?w1\<lparr>storage := s2, calls := calls ?w1 @ [GetObjectCall bucket (getMetadataKey p)]\<rparr>)"
    by (rule fetchBackup_failure [OF g assms(4)])
  have "GetAllBackups br decoder bucket w
          = rangePrefixes br decoder bucket (ps1 @ p # ps2) (Some []) ?w0"
    using assms(1) by (simp add: GetAllBackups_def objectStorage_ListCommonPrefixes_def)
  also have "\<dots> = rangePrefixes br decoder bucket (p # ps2) (Some ([] @ bs)) ?w1"
    by (rule rangePrefixes_append [OF r1])
  also have "\<dots> = ((None, Some err),
      ?w1\<lparr>storage := s2, calls := calls ?w1 @ [GetObjectCall bucket (getMetadataKey p)]\<rparr>)"
    using f by simp
  finally show ?thesis by simp
qed

lemmas eval_defs = GetAllBackups_def objectStorage_ListCommonPrefixes_def fetchBackup_def
  objectStorage_GetObject_def append_slice_def testDecoder_def Let_def

lemma cacheAgrees_init:
  "cacheAgrees (NewBackupServiceWithCachedBackupGetter br decoder period, w, [])"
  by (simp add: cacheAgrees_def NewBackupServiceWithCachedBackupGetter_def NewBackupCache_def
      refreshFailures_def)

lemma cacheAgrees_step: "cacheAgrees st \<Longrightarrow> cacheAgrees (step st ev)"
proof (cases st)
  case (fields c w h)
  assume a: "cacheAgrees st"
  show ?thesis
  proof (cases ev)
    case (Refresh bucketName)
    with a fields show ?thesis
      by (auto simp add: cacheAgrees_def backupCache_refresh_def refreshFailures_def
          succeeded_def collection_def split: prod.splits option.splits)
  next
    case Cancel
    with a fields show ?thesis by (simp add: cacheAgrees_def)
  next
    case (Outside f)
    with a fields show ?thesis by (simp add: cacheAgrees_def)
  qed
qed

lemma cacheAgrees_run: "cacheAgrees st \<Longrightarrow> cacheAgrees (run st evs)"
  unfolding run_def
  by (induction evs arbitrary: st) (simp_all add: cacheAgrees_step)

subsection \<open>Key derivation\<close>

text \<open>
  C9. For every backup name \<open>N\<close>, whatever bytes it holds (a slash or a percent sign
  included), the three key functions return \<open>N/ark-backup.json\<close>, \<open>N/N.tar.gz\<close> and
  \<open>N/N.log.gz\<close>. The functions are HOL functions of \<open>N\<close> alone, hence deterministic.
\<close>

theorem deriveKeys_exact:
  "getMetadataKey N = N @ ''/ark-backup.json'' \<and>
   getBackupKey N = N @ ''/'' @ N @ ''.tar.gz'' \<and>
   getBackupLogKey N = N @ ''/'' @ N @ ''.log.gz''"
  by (simp add: getMetadataKey_def getBackupKey_def getBackupLogKey_def
      metadataFileFormatString_def backupFileFormatString_def logFileFormatString_def)

subsection \<open>UploadBackup\<close>

text \<open>
  C6. If the write of the metadata object fails, \<open>UploadBackup\<close> returns the adapter's
  error as it is, and the call of \<open>PutObject\<close> on the metadata key is the only call it
  makes on the adapter: the object store is in the state that call left, and nothing was
  given to the log.
\<close>

theorem UploadBackup_metadata_failure:
  assumes "PutObject (objectStorage br) bucket (getMetadataKey backupName) metadata (storage w)
             = (Some err, s1)"
  shows "UploadBackup br bucket backupName metadata backup log w
           = (Some err,
              w\<lparr>storage := s1,
                calls := calls w @ [PutObjectCall bucket (getMetadataKey backupName) metadata]\<rparr>)"
  using assms by (simp add: UploadBackup_def objectStorage_PutObject_def)

theorem UploadBackup_metadata_failure_witness:
  "PutObject (objectStorage memService) ''bkt'' (getMetadataKey ''b1'') ''meta''
       (storage (memWorld [] [''b1/ark-backup.json''] []))
     = (Some (ErrorString ''put failed: b1/ark-backup.json''),
        memState [] [''b1/ark-backup.json''] [])
   \<and> UploadBackup memService ''bkt'' ''b1'' ''meta'' ''data'' ''log''
       (memWorld [] [''b1/ark-backup.json''] [])
     = (Some (ErrorString ''put failed: b1/ark-backup.json''),
        \<lparr>storage = memState [] [''b1/ark-backup.json''] [],
         calls = [PutObjectCall ''bkt'' ''b1/ark-backup.json'' ''meta''],
         glog = []\<rparr>)"
proof -
  have h: "PutObject (objectStorage memService) ''bkt'' (getMetadataKey ''b1'') ''meta''
       (storage (memWorld [] [''b1/ark-backup.json''] []))
     = (Some (ErrorString ''put failed: b1/ark-backup.json''),
        memState [] [''b1/ark-backup.json''] [])"
    by (simp add: mem_defs)
  show ?thesis
    using h UploadBackup_metadata_failure [OF h, of "''data''" "''log''"]
    by (simp add: memWorld_def getMetadataKey_eq)
qed

text \<open>
  C1. If the write of the metadata object succeeds and the write of the data archive
  fails, \<open>UploadBackup\<close> calls \<open>DeleteObject\<close> on the metadata key, makes no call after
  it, and returns an error that is not \<open>nil\<close>. When the delete succeeds the error is the
  aggregate of the data-write failure alone and prints as that failure, and the object
  store is in the state the delete left: with an adapter whose successful delete removes
  the object, the metadata object is absent. When the delete fails the error is the
  aggregate of the data-write failure and the delete failure, in that order.
\<close>

theorem UploadBackup_data_failure_rollback:
  assumes "PutObject (objectStorage br) bucket (getMetadataKey backupName) metadata (storage w)
             = (None, s1)"
      and "PutObject (objectStorage br) bucket (getBackupKey backupName) backup s1
             = (Some err, s2)"
      and "DeleteObject (objectStorage br) bucket (getMetadataKey backupName) s2
             = (deleteErr, s3)"
  shows "\<exists>e w'. UploadBackup br bucket backupName metadata backup log w = (Some e, w')
           \<and> w' = w\<lparr>storage := s3,
                calls := calls w @
                  [PutObjectCall bucket (getMetadataKey backupName) metadata,
                   PutObjectCall bucket (getBackupKey backupName) backup,
                   DeleteObjectCall bucket (getMetadataKey backupName)]\<rparr>
           \<and> (case deleteErr of
                None \<Rightarrow>
                  e = Aggregate [err] \<and> Error e = Error err
                  \<and> (deleteRemoves (objectStorage br) \<longrightarrow>
                       objectAbsent (objectStorage br) bucket (getMetadataKey backupName)
                         (storage w'))
              | Some derr \<Rightarrow> e = Aggregate [err, derr])"
  using assms
  by (cases deleteErr)
     (auto simp add: UploadBackup_def objectStorage_PutObject_def
        objectStorage_DeleteObject_def NewAggregate_def deleteRemoves_def Let_def)

theorem UploadBackup_data_failure_rollback_witness:
  "PutObject (objectStorage memService) ''bkt'' (getMetadataKey ''b1'') ''meta''
       (storage (memWorld [] [''b1/b1.tar.gz''] []))
     = (None, memState [((''bkt'', ''b1/ark-backup.json''), ''meta'')] [''b1/b1.tar.gz''] [])
   \<and> PutObject (objectStorage memService) ''bkt'' (getBackupKey ''b1'') ''data''
       (memState [((''bkt'', ''b1/ark-backup.json''), ''meta'')] [''b1/b1.tar.gz''] [])
     = (Some (ErrorString ''put failed: b1/b1.tar.gz''),
        memState [((''bkt'', ''b1/ark-backup.json''), ''meta'')] [''b1/b1.tar.gz''] [])
   \<and> DeleteObject (objectStorage memService) ''bkt'' (getMetadataKey ''b1'')
       (memState [((''bkt'', ''b1/ark-backup.json''), ''meta'')] [''b1/b1.tar.gz''] [])
     = (None, memState [] [''b1/b1.tar.gz''] [])
   \<and> deleteRemoves (objectStorage memService)
   \<and> UploadBackup memService ''bkt'' ''b1'' ''meta'' ''data'' ''log''
       (memWorld [] [''b1/b1.tar.gz''] [])
     = (Some (Aggregate [ErrorString ''put failed: b1/b1.tar.gz'']),
        \<lparr>storage = memState [] [''b1/b1.tar.gz''] [],
         calls = [PutObjectCall ''bkt'' ''b1/ark-backup.json'' ''meta'',
                  PutObjectCall ''bkt'' ''b1/b1.tar.gz'' ''data'',
                  DeleteObjectCall ''bkt'' ''b1/ark-backup.json''],
         glog = []\<rparr>)
   \<and> objectAbsent (objectStorage memService) ''bkt'' ''b1/ark-backup.json''
       (memState [] [''b1/b1.tar.gz''] [])"
proof -
  have h1: "PutObject (objectStorage memService) ''bkt'' (getMetadataKey ''b1'') ''meta''
       (storage (memWorld [] [''b1/b1.tar.gz''] []))
     = (None, memState [((''bkt'', ''b1/ark-backup.json''), ''meta'')] [''b1/b1.tar.gz''] [])"
    by (simp add: mem_defs)
  have h2: "PutObject (objectStorage memService) ''bkt'' (getBackupKey ''b1'') ''data''
       (memState [((''bkt'', ''b1/ark-backup.json''), ''meta'')] [''b1/b1.tar.gz''] [])
     = (Some (ErrorString ''put failed: b1/b1.tar.gz''),
        memState [((''bkt'', ''b1/ark-backup.json''), ''meta'')] [''b1/b1.tar.gz''] [])"
    by (simp add: mem_defs)
  have h3: "DeleteObject (objectStorage memService) ''bkt'' (getMetadataKey ''b1'')
       (memState [((''bkt'', ''b1/ark-backup.json''), ''meta'')] [''b1/b1.tar.gz''] [])
     = (None, memState [] [''b1/b1.tar.gz''] [])"
    by (simp add: mem_defs)
  have h4: "deleteRemoves (objectStorage memService)"
    by (simp add: memService_def NewBackupService_def memAdapter_deleteRemoves)
  show ?thesis
    using h1 h2 h3 h4 UploadBackup_data_failure_rollback [OF h1 h2 h3, of "''log''"]
    by (auto simp add: memWorld_def getMetadataKey_eq getBackupKey_eq)
qed

text \<open>
  The same upload when the rollback delete fails as well, evaluated on the adapter in
  memory: both failures are in the aggregate and the metadata object stays in the store.
\<close>

lemma UploadBackup_rollback_fails_example:
  "UploadBackup memService ''bkt'' ''b1'' ''meta'' ''data'' ''log''
       (memWorld [] [''b1/b1.tar.gz''] [''b1/ark-backup.json''])
     = (Some (Aggregate [ErrorString ''put failed: b1/b1.tar.gz'',
                         ErrorString ''delete failed: b1/ark-backup.json'']),
        \<lparr>storage = memState [((''bkt'', ''b1/ark-backup.json''), ''meta'')]
                     [''b1/b1.tar.gz''] [''b1/ark-backup.json''],
         calls = [PutObjectCall ''bkt'' ''b1/ark-backup.json'' ''meta'',
                  PutObjectCall ''bkt'' ''b1/b1.tar.gz'' ''data'',
                  DeleteObjectCall ''bkt'' ''b1/ark-backup.json''],
         glog = []\<rparr>)"
  by (simp add: UploadBackup_def objectStorage_PutObject_def objectStorage_DeleteObject_def
      NewAggregate_def Let_def mem_defs)

text \<open>
  C5. If the writes of the metadata object and of the data archive both succeed,
  \<open>UploadBackup\<close> calls \<open>PutObject\<close> on the log key and returns \<open>nil\<close> whatever that
  call returns. A failure of the log write leaves one error line in the log and nothing
  else; a success leaves none.
\<close>

theorem UploadBackup_log_best_effort:
  assumes "PutObject (objectStorage br) bucket (getMetadataKey backupName) metadata (storage w)
             = (None, s1)"
      and "PutObject (objectStorage br) bucket (getBackupKey backupName) backup s1 = (None, s2)"
      and "PutObject (objectStorage br) bucket (getBackupLogKey backupName) log s2 = (logErr, s3)"
  shows "UploadBackup br bucket backupName metadata backup log w
           = (None, w\<lparr>storage := s3,
                calls := calls w @
                  [PutObjectCall bucket (getMetadataKey backupName) metadata,
                   PutObjectCall bucket (getBackupKey backupName) backup,
                   PutObjectCall bucket (getBackupLogKey backupName) log],
                glog := glog w @
                  (case logErr of
                     None \<Rightarrow> []
                   | Some err \<Rightarrow>
                       [ErrorLine (''error uploading '' @ bucket @ ''/''
                          @ getBackupLogKey backupName @ '': '' @ Error err)])\<rparr>)"
  using assms
  by (cases logErr)
     (simp_all add: UploadBackup_def objectStorage_PutObject_def glog_Errorf_def
        Sprintf_upload_line Let_def)

theorem UploadBackup_log_best_effort_witness:
  "PutObject (objectStorage memService) ''bkt'' (getMetadataKey ''b1'') ''meta''
       (storage (memWorld [] [''b1/b1.log.gz''] []))
     = (None, memState [((''bkt'', ''b1/ark-backup.json''), ''meta'')] [''b1/b1.log.gz''] [])
   \<and> PutObject (objectStorage memService) ''bkt'' (getBackupKey ''b1'') ''data''
       (memState [((''bkt'', ''b1/ark-backup.json''), ''meta'')] [''b1/b1.log.gz''] [])
     = (None, memState [((''bkt'', ''b1/ark-backup.json''), ''meta''),
                        ((''bkt'', ''b1/b1.tar.gz''), ''data'')] [''b1/b1.log.gz''] [])
   \<and> PutObject (objectStorage memService) ''bkt'' (getBackupLogKey ''b1'') ''log''
       (memState [((''bkt'', ''b1/ark-backup.json''), ''meta''),
                  ((''bkt'', ''b1/b1.tar.gz''), ''data'')] [''b1/b1.log.gz''] [])
     = (Some (ErrorString ''put failed: b1/b1.log.gz''),
        memState [((''bkt'', ''b1/ark-backup.json''), ''meta''),
                  ((''bkt'', ''b1/b1.tar.gz''), ''data'')] [''b1/b1.log.gz''] [])
   \<and> UploadBackup memService ''bkt'' ''b1'' ''meta'' ''data'' ''log''
       (memWorld [] [''b1/b1.log.gz''] [])
     = (None,
        \<lparr>storage = memState [((''bkt'', ''b1/ark-backup.json''), ''meta''),
                  ((''bkt'', ''b1/b1.tar.gz''), ''data'')] [''b1/b1.log.gz''] [],
         calls = [PutObjectCall ''bkt'' ''b1/ark-backup.json'' ''meta'',
                  PutObjectCall ''bkt'' ''b1/b1.tar.gz'' ''data'',
                  PutObjectCall ''bkt'' ''b1/b1.log.gz'' ''log''],
         glog = [ErrorLine ''error uploading bkt/b1/b1.log.gz: put failed: b1/b1.log.gz'']\<rparr>)"
proof -
  have h1: "PutObject (objectStorage memService) ''bkt'' (getMetadataKey ''b1'') ''meta''
       (storage (memWorld [] [''b1/b1.log.gz''] []))
     = (None, memState [((''bkt'', ''b1/ark-backup.json''), ''meta'')] [''b1/b1.log.gz''] [])"
    by (simp add: mem_defs)
  have h2: "PutObject (objectStorage memService) ''bkt'' (getBackupKey ''b1'') ''data''
       (memState [((''bkt'', ''b1/ark-backup.json''), ''meta'')] [''b1/b1.log.gz''] [])
     = (None, memState [((''bkt'', ''b1/ark-backup.json''), ''meta''),
                        ((''bkt'', ''b1/b1.tar.gz''), ''data'')] [''b1/b1.log.gz''] [])"
    by (simp add: mem_defs)
  have h3: "PutObject (objectStorage memService) ''bkt'' (getBackupLogKey ''b1'') ''log''
       (memState [((''bkt'', ''b1/ark-backup.json''), ''meta''),
                  ((''bkt'', ''b1/b1.tar.gz''), ''data'')] [''b1/b1.log.gz''] [])
     = (Some (ErrorString ''put failed: b1/b1.log.gz''),
        memState [((''bkt'', ''b1/ark-backup.json''), ''meta''),
                  ((''bkt'', ''b1/b1.tar.gz''), ''data'')] [''b1/b1.log.gz''] [])"
    by (simp add: mem_defs)
  show ?thesis
    using h1 h2 h3 UploadBackup_log_best_effort [OF h1 h2 h3]
    by (simp add: memWorld_def getMetadataKey_eq getBackupKey_eq getBackupLogKey_eq)
qed

subsection \<open>DeleteBackup\<close>

text \<open>
  C4. \<open>DeleteBackup\<close> calls \<open>DeleteObject\<close> on the data-archive key and then on the
  metadata key, whatever the first call returned, and makes no other call: the log key
  is not deleted. The failures of the two calls, in order, make one aggregate error, and
  the error is \<open>nil\<close> exactly when both calls succeeded.
\<close>

theorem DeleteBackup_best_effort:
  assumes "DeleteObject (objectStorage br) bucket (getBackupKey backupName) (storage w)
             = (err1, s1)"
      and "DeleteObject (objectStorage br) bucket (getMetadataKey backupName) s1
             = (err2, s2)"
  shows "DeleteBackup br bucket backupName w
           = (if err1 = None \<and> err2 = None then None
              else Some (Aggregate (nonNil [err1, err2])),
              w\<lparr>storage := s2,
                calls := calls w @
                  [DeleteObjectCall bucket (getBackupKey backupName),
                   DeleteObjectCall bucket (getMetadataKey backupName)],
                glog := glog w @
                  [InfoLine 4 (''Trying to delete bucket='' @ bucket @ '', key=''
                     @ getBackupKey backupName),
                   InfoLine 4 (''Trying to delete bucket='' @ bucket @ '', key=''
                     @ getMetadataKey backupName)]\<rparr>)
         \<and> DeleteObjectCall bucket (getBackupLogKey backupName)
             \<notin> set (drop (length (calls w))
                      (calls (snd (DeleteBackup br bucket backupName w))))
         \<and> (fst (DeleteBackup br bucket backupName w) = None
              \<longleftrightarrow> err1 = None \<and> err2 = None)"
  using assms logKey_neq_backupKey [of backupName] logKey_neq_metadataKey [of backupName]
  by (cases err1; cases err2)
     (simp_all add: DeleteBackup_def objectStorage_DeleteObject_def glog_V_Infof_def
        NewAggregate_def Sprintf_delete_line Let_def)

theorem DeleteBackup_best_effort_witness:
  "DeleteObject (objectStorage memService) ''bkt'' (getBackupKey ''b1'')
       (storage (memWorld [((''bkt'', ''b1/ark-backup.json''), ''meta''),
                           ((''bkt'', ''b1/b1.tar.gz''), ''data''),
                           ((''bkt'', ''b1/b1.log.gz''), ''log'')] [] [''b1/b1.tar.gz'']))
     = (Some (ErrorString ''delete failed: b1/b1.tar.gz''),
        memState [((''bkt'', ''b1/ark-backup.json''), ''meta''),
                  ((''bkt'', ''b1/b1.tar.gz''), ''data''),
                  ((''bkt'', ''b1/b1.log.gz''), ''log'')] [] [''b1/b1.tar.gz''])
   \<and> DeleteObject (objectStorage memService) ''bkt'' (getMetadataKey ''b1'')
       (memState [((''bkt'', ''b1/ark-backup.json''), ''meta''),
                  ((''bkt'', ''b1/b1.tar.gz''), ''data''),
                  ((''bkt'', ''b1/b1.log.gz''), ''log'')] [] [''b1/b1.tar.gz''])
     = (None, memState [((''bkt'', ''b1/b1.tar.gz''), ''data''),
                        ((''bkt'', ''b1/b1.log.gz''), ''log'')] [] [''b1/b1.tar.gz''])
   \<and> DeleteBackup memService ''bkt'' ''b1''
       (memWorld [((''bkt'', ''b1/ark-backup.json''), ''meta''),
                  ((''bkt'', ''b1/b1.tar.gz''), ''data''),
                  ((''bkt'', ''b1/b1.log.gz''), ''log'')] [] [''b1/b1.tar.gz''])
     = (Some (Aggregate [ErrorString ''delete failed: b1/b1.tar.gz'']),
        \<lparr>storage = memState [((''bkt'', ''b1/b1.tar.gz''), ''data''),
                              ((''bkt'', ''b1/b1.log.gz''), ''log'')] [] [''b1/b1.tar.gz''],
         calls = [DeleteObjectCall ''bkt'' ''b1/b1.tar.gz'',
                  DeleteObjectCall ''bkt'' ''b1/ark-backup.json''],
         glog = [InfoLine 4 ''Trying to delete bucket=bkt, key=b1/b1.tar.gz'',
                 InfoLine 4 ''Trying to delete bucket=bkt, key=b1/ark-backup.json'']\<rparr>)"
proof -
  have h1: "DeleteObject (objectStorage memService) ''bkt'' (getBackupKey ''b1'')
       (storage (memWorld [((''bkt'', ''b1/ark-backup.json''), ''meta''),
                           ((''bkt'', ''b1/b1.tar.gz''), ''data''),
                           ((''bkt'', ''b1/b1.log.gz''), ''log'')] [] [''b1/b1.tar.gz'']))
     = (Some (ErrorString ''delete failed: b1/b1.tar.gz''),
        memState [((''bkt'', ''b1/ark-backup.json''), ''meta''),
                  ((''bkt'', ''b1/b1.tar.gz''), ''data''),
                  ((''bkt'', ''b1/b1.log.gz''), ''log'')] [] [''b1/b1.tar.gz''])"
    by (simp add: mem_defs)
  have h2: "DeleteObject (objectStorage memService) ''bkt'' (getMetadataKey ''b1'')
       (memState [((''bkt'', ''b1/ark-backup.json''), ''meta''),
                  ((''bkt'', ''b1/b1.tar.gz''), ''data''),
                  ((''bkt'', ''b1/b1.log.gz''), ''log'')] [] [''b1/b1.tar.gz''])
     = (None, memState [((''bkt'', ''b1/b1.tar.gz''), ''data''),
                        ((''bkt'', ''b1/b1.log.gz''), ''log'')] [] [''b1/b1.tar.gz''])"
    by (simp add: mem_defs)
  show ?thesis
    using h1 h2 DeleteBackup_best_effort [OF h1 h2]
    by (simp add: memWorld_def getMetadataKey_eq getBackupKey_eq)
qed

subsection \<open>GetAllBackups\<close>

text \<open>
  C8. When the listing of common prefixes succeeds with no prefix, \<open>GetAllBackups\<close>
  returns an empty slice that is not \<open>nil\<close>, and the error \<open>nil\<close>; the listing is the
  only call it makes.
\<close>

theorem GetAllBackups_empty_listing:
  assumes "ListCommonPrefixes (objectStorage br) bucket ''/'' (storage w) = (Inr [], s1)"
  shows "GetAllBackups br decoder bucket w
           = ((Some [], None),
              w\<lparr>storage := s1, calls := calls w @ [ListCommonPrefixesCall bucket ''/'']\<rparr>)"
  using assms by (simp add: GetAllBackups_def objectStorage_ListCommonPrefixes_def)

theorem GetAllBackups_empty_listing_witness:
  "ListCommonPrefixes (objectStorage memService) ''bkt'' ''/'' (storage (memWorld [] [] []))
     = (Inr [], memState [] [] [])
   \<and> GetAllBackups memService testDecoder ''bkt'' (memWorld [] [] [])
     = ((Some [], None),
        (memWorld [] [] [])\<lparr>calls := [ListCommonPrefixesCall ''bkt'' ''/'']\<rparr>)"
proof -
  have h: "ListCommonPrefixes (objectStorage memService) ''bkt'' ''/''
      (storage (memWorld [] [] [])) = (Inr [], memState [] [] [])"
    by (simp add: mem_defs)
  show ?thesis
    using h GetAllBackups_empty_listing [OF h, of testDecoder]
    by (simp add: memWorld_def)
qed

text \<open>
  C2. Let the listing succeed, let the metadata objects of the prefixes before some
  prefix \<open>p\<close> of the listing be fetched and decoded in order, and let \<open>p\<close> fail: its
  \<open>GetObject\<close> fails, or reading what it returned fails, or the decoder fails on the
  bytes, or the decoder makes an object that is not a backup. Then \<open>GetAllBackups\<close>
  returns that error with a \<open>nil\<close> slice, none of the backups decoded before, and it
  fetches no prefix after \<open>p\<close>.
\<close>

theorem GetAllBackups_all_or_nothing:
  assumes "ListCommonPrefixes (objectStorage br) bucket ''/'' (storage w)
             = (Inr (ps1 @ p # ps2), s0)"
      and "fetchedInOrder (objectStorage br) decoder bucket ps1 s0 ss bs"
      and "GetObject (objectStorage br) bucket (getMetadataKey p) (last (s0 # ss)) = (r, s2)"
      and "r = Inl err
           \<or> (\<exists>res. r = Inr res \<and>
                (ReadAll res = Inl err
                 \<or> (\<exists>data. ReadAll res = Inr data \<and>
                      (decoder data = Inl err
                       \<or> (\<exists>T. decoder data = Inr (OtherObject T) \<and>
                            err = Errorf ''unexpected type for %s/%s: %T''
                                    [bucket, getMetadataKey p, T])))))"
  shows "GetAllBackups br decoder bucket w
           = ((None, Some err),
              w\<lparr>storage := s2,
                calls := calls w @ ListCommonPrefixesCall bucket ''/''
                  # map (\<lambda>d. GetObjectCall bucket (getMetadataKey d)) (ps1 @ [p])\<rparr>)"
  using assms by (rule GetAllBackups_failing_candidate)

theorem GetAllBackups_all_or_nothing_witness:
  "ListCommonPrefixes (objectStorage memService) ''bkt'' ''/''
       (storage (memWorld [((''bkt'', ''a/ark-backup.json''), ''backup:a''),
                           ((''bkt'', ''b/ark-backup.json''), ''garbage'')] [] []))
     = (Inr ([''a''] @ ''b'' # []),
        memState [((''bkt'', ''a/ark-backup.json''), ''backup:a''),
                  ((''bkt'', ''b/ark-backup.json''), ''garbage'')] [] [])
   \<and> fetchedInOrder (objectStorage memService) testDecoder ''bkt'' [''a'']
       (memState [((''bkt'', ''a/ark-backup.json''), ''backup:a''),
                  ((''bkt'', ''b/ark-backup.json''), ''garbage'')] [] [])
       [memState [((''bkt'', ''a/ark-backup.json''), ''backup:a''),
                  ((''bkt'', ''b/ark-backup.json''), ''garbage'')] [] []]
       [''a'']
   \<and> GetObject (objectStorage memService) ''bkt'' (getMetadataKey ''b'')
       (memState [((''bkt'', ''a/ark-backup.json''), ''backup:a''),
                  ((''bkt'', ''b/ark-backup.json''), ''garbage'')] [] [])
     = (Inr (ReadCloser (Inr ''garbage'')),
        memState [((''bkt'', ''a/ark-backup.json''), ''backup:a''),
                  ((''bkt'', ''b/ark-backup.json''), ''garbage'')] [] [])
   \<and> testDecoder ''garbage'' = Inl (ErrorString ''invalid character in payload'')
   \<and> GetAllBackups memService testDecoder ''bkt''
       (memWorld [((''bkt'', ''a/ark-backup.json''), ''backup:a''),
                  ((''bkt'', ''b/ark-backup.json''), ''garbage'')] [] [])
     = ((None, Some (ErrorString ''invalid character in payload'')),
        \<lparr>storage = memState [((''bkt'', ''a/ark-backup.json''), ''backup:a''),
                              ((''bkt'', ''b/ark-backup.json''), ''garbage'')] [] [],
         calls = [ListCommonPrefixesCall ''bkt'' ''/'',
                  GetObjectCall ''bkt'' ''a/ark-backup.json'',
                  GetObjectCall ''bkt'' ''b/ark-backup.json''],
         glog = []\<rparr>)"
proof -
  let ?s = "memState [((''bkt'', ''a/ark-backup.json''), ''backup:a''),
                      ((''bkt'', ''b/ark-backup.json''), ''garbage'')] [] []"
  let ?w = "memWorld [((''bkt'', ''a/ark-backup.json''), ''backup:a''),
                      ((''bkt'', ''b/ark-backup.json''), ''garbage'')] [] []"
  have h1: "ListCommonPrefixes (objectStorage memService) ''bkt'' ''/'' (storage ?w)
              = (Inr ([''a''] @ ''b'' # []), ?s)"
    by (simp add: mem_defs)
  have h2: "fetchedInOrder (objectStorage memService) testDecoder ''bkt'' [''a''] ?s [?s] [''a'']"
    by (simp add: fetchedInOrder_def decodesTo_def testDecoder_def mem_defs)
  have h3: "GetObject (objectStorage memService) ''bkt'' (getMetadataKey ''b'') (last (?s # [?s]))
              = (Inr (ReadCloser (Inr ''garbage'')), ?s)"
    by (simp add: mem_defs)
  have h4: "testDecoder ''garbage'' = Inl (ErrorString ''invalid character in payload'')"
    by (simp add: testDecoder_def)
  have h5: "Inr (ReadCloser (Inr ''garbage'')) = Inl (ErrorString ''invalid character in payload'')
           \<or> (\<exists>res. Inr (ReadCloser (Inr ''garbage'')) = Inr res \<and>
                (ReadAll res = Inl (ErrorString ''invalid character in payload'')
                 \<or> (\<exists>data. ReadAll res = Inr data \<and>
                      (testDecoder data = Inl (ErrorString ''invalid character in payload'')
                       \<or> (\<exists>T. testDecoder data = Inr (OtherObject T) \<and>
                            ErrorString ''invalid character in payload''
                              = Errorf ''unexpected type for %s/%s: %T''
                                    [''bkt'', getMetadataKey ''b'', T])))))"
    using h4 by simp
  show ?thesis
    using h1 h2 h3 h4 GetAllBackups_all_or_nothing [OF h1 h2 h3 h5]
    by (simp add: memWorld_def getMetadataKey_eq)
qed

text \<open>
  C7, as the claim states it, fails: the error of a payload that the decoder rejects is
  the decoder's own error, returned as it is, and it names neither the bucket nor the
  key. Here the only object of the bucket \<open>bkt\<close> is \<open>b1/ark-backup.json\<close>, whose bytes
  the decoder rejects.
\<close>

theorem GetAllBackups_decode_error_context_counterexample:
  "fst (GetObject memAdapter ''bkt'' (getMetadataKey ''b1'')
          (memState [((''bkt'', ''b1/ark-backup.json''), ''garbage'')] [] []))
     = Inr (ReadCloser (Inr ''garbage''))
   \<and> testDecoder ''garbage'' = Inl (ErrorString ''invalid character in payload'')
   \<and> fst (GetAllBackups memService testDecoder ''bkt''
            (memWorld [((''bkt'', ''b1/ark-backup.json''), ''garbage'')] [] []))
     = (None, Some (ErrorString ''invalid character in payload''))
   \<and> \<not> reportsBucketAndKey (ErrorString ''invalid character in payload'') ''bkt''
         (getMetadataKey ''b1'')"
  by (simp add: eval_defs reportsBucketAndKey_def mem_defs)

text \<open>
  C7, amended. With the listing and the earlier prefixes as in C2, and the bytes of the
  metadata object of \<open>p\<close> read: when the decoder makes an object that is not a backup,
  \<open>GetAllBackups\<close> fails with the error \<open>unexpected type for bucket/key: type\<close>, which
  reports the bucket and the key; when the decoder fails, \<open>GetAllBackups\<close> fails with
  the decoder's error, unchanged.
\<close>

theorem GetAllBackups_decode_error_context:
  assumes "ListCommonPrefixes (objectStorage br) bucket ''/'' (storage w)
             = (Inr (ps1 @ p # ps2), s0)"
      and "fetchedInOrder (objectStorage br) decoder bucket ps1 s0 ss bs"
      and "GetObject (objectStorage br) bucket (getMetadataKey p) (last (s0 # ss))
             = (Inr res, s2)"
      and "ReadAll res = Inr data"
  shows "(\<forall>T. decoder data = Inr (OtherObject T) \<longrightarrow>
            (\<exists>err. fst (GetAllBackups br decoder bucket w) = (None, Some err)
               \<and> Error err = ''unexpected type for '' @ bucket @ ''/'' @ getMetadataKey p
                               @ '': '' @ T
               \<and> reportsBucketAndKey err bucket (getMetadataKey p)))
         \<and> (\<forall>err. decoder data = Inl err \<longrightarrow>
               fst (GetAllBackups br decoder bucket w) = (None, Some err))"
proof (intro conjI allI impI)
  fix T
  assume d: "decoder data = Inr (OtherObject T)"
  let ?e = "Errorf ''unexpected type for %s/%s: %T'' [bucket, getMetadataKey p, T]"
  have "fst (GetAllBackups br decoder bucket w) = (None, Some ?e)"
    using GetAllBackups_failing_candidate [OF assms(1) assms(2) assms(3), of ?e] assms(4) d
    by simp
  moreover have "Error ?e = ''unexpected type for '' @ bucket @ ''/'' @ getMetadataKey p
                               @ '': '' @ T"
    by (simp add: Errorf_def)
  moreover have "reportsBucketAndKey ?e bucket (getMetadataKey p)"
    by (rule unexpected_type_reports)
  ultimately show "\<exists>err. fst (GetAllBackups br decoder bucket w) = (None, Some err)
               \<and> Error err = ''unexpected type for '' @ bucket @ ''/'' @ getMetadataKey p
                               @ '': '' @ T
               \<and> reportsBucketAndKey err bucket (getMetadataKey p)"
    by blast
next
  fix err
  assume d: "decoder data = Inl err"
  show "fst (GetAllBackups br decoder bucket w) = (None, Some err)"
    using GetAllBackups_failing_candidate [OF assms(1) assms(2) assms(3), of err] assms(4) d
    by simp
qed

theorem GetAllBackups_decode_error_context_witness:
  "ListCommonPrefixes (objectStorage memService) ''bkt'' ''/''
       (storage (memWorld [((''bkt'', ''a/ark-backup.json''), ''backup:a''),
                           ((''bkt'', ''b/ark-backup.json''), ''restore:b'')] [] []))
     = (Inr ([''a''] @ ''b'' # []),
        memState [((''bkt'', ''a/ark-backup.json''), ''backup:a''),
                  ((''bkt'', ''b/ark-backup.json''), ''restore:b'')] [] [])
   \<and> fetchedInOrder (objectStorage memService) testDecoder ''bkt'' [''a'']
       (memState [((''bkt'', ''a/ark-backup.json''), ''backup:a''),
                  ((''bkt'', ''b/ark-backup.json''), ''restore:b'')] [] [])
       [memState [((''bkt'', ''a/ark-backup.json''), ''backup:a''),
                  ((''bkt'', ''b/ark-backup.json''), ''restore:b'')] [] []]
       [''a'']
   \<and> GetObject (objectStorage memService) ''bkt'' (getMetadataKey ''b'')
       (memState [((''bkt'', ''a/ark-backup.json''), ''backup:a''),
                  ((''bkt'', ''b/ark-backup.json''), ''restore:b'')] [] [])
     = (Inr (ReadCloser (Inr ''restore:b'')),
        memState [((''bkt'', ''a/ark-backup.json''), ''backup:a''),
                  ((''bkt'', ''b/ark-backup.json''), ''restore:b'')] [] [])
   \<and> ReadAll (ReadCloser (Inr ''restore:b'')) = Inr ''restore:b''
   \<and> testDecoder ''restore:b'' = Inr (OtherObject ''*v1.Restore'')
   \<and> (\<exists>err. fst (GetAllBackups memService testDecoder ''bkt''
                  (memWorld [((''bkt'', ''a/ark-backup.json''), ''backup:a''),
                             ((''bkt'', ''b/ark-backup.json''), ''restore:b'')] [] []))
                = (None, Some err)
          \<and> Error err = ''unexpected type for bkt/b/ark-backup.json: *v1.Restore''
          \<and> reportsBucketAndKey err ''bkt'' ''b/ark-backup.json'')"
proof -
  let ?s = "memState [((''bkt'', ''a/ark-backup.json''), ''backup:a''),
                      ((''bkt'', ''b/ark-backup.json''), ''restore:b'')] [] []"
  let ?w = "memWorld [((''bkt'', ''a/ark-backup.json''), ''backup:a''),
                      ((''bkt'', ''b/ark-backup.json''), ''restore:b'')] [] []"
  have h1: "ListCommonPrefixes (objectStorage memService) ''bkt'' ''/'' (storage ?w)
              = (Inr ([''a''] @ ''b'' # []), ?s)"
    by (simp add: mem_defs)
  have h2: "fetchedInOrder (objectStorage memService) testDecoder ''bkt'' [''a''] ?s [?s] [''a'']"
    by (simp add: fetchedInOrder_def decodesTo_def testDecoder_def mem_defs)
  have h3: "GetObject (objectStorage memService) ''bkt'' (getMetadataKey ''b'') (last (?s # [?s]))
              = (Inr (ReadCloser (Inr ''restore:b'')), ?s)"
    by (simp add: mem_defs)
  have h4: "ReadAll (ReadCloser (Inr ''restore:b'')) = Inr ''restore:b''"
    by simp
  have h5: "testDecoder ''restore:b'' = Inr (OtherObject ''*v1.Restore'')"
    by (simp add: testDecoder_def)
  show ?thesis
    using h1 h2 h3 h4 h5 GetAllBackups_decode_error_context [OF h1 h2 h3 h4]
    by (simp add: getMetadataKey_eq)
qed

text \<open>
  C10. When the listing succeeds and \<open>GetAllBackups\<close> returns no error, it returns a
  slice with one backup for each prefix of the listing, in the order of the listing: the
  metadata objects of the prefixes were fetched in that order, and the \<open>i\<close>-th backup is
  what the metadata object of the \<open>i\<close>-th prefix decodes to.
\<close>

theorem GetAllBackups_one_record_per_prefix:
  assumes "ListCommonPrefixes (objectStorage br) bucket ''/'' (storage w) = (Inr prefixes, s0)"
      and "GetAllBackups br decoder bucket w = ((output, None), w')"
  shows "\<exists>bs ss. output = Some bs \<and> length bs = length prefixes
           \<and> fetchedInOrder (objectStorage br) decoder bucket prefixes s0 ss bs
           \<and> storage w' = last (s0 # ss)"
proof (cases "prefixes = []")
  case True
  with assms have "output = Some []" and "storage w' = s0"
    by (auto simp add: GetAllBackups_def objectStorage_ListCommonPrefixes_def)
  with True show ?thesis
    by (auto simp add: fetchedInOrder_Nil)
next
  case False
  let ?w0 = "w\<lparr>storage := s0, calls := calls w @ [ListCommonPrefixesCall bucket ''/'']\<rparr>"
  from False assms have
    "rangePrefixes br decoder bucket prefixes (Some []) ?w0 = ((output, None), w')"
    by (simp add: GetAllBackups_def objectStorage_ListCommonPrefixes_def)
  from rangePrefixes_success_elim [OF this] obtain bs ss where
    "output = Some bs"
    "fetchedInOrder (objectStorage br) decoder bucket prefixes s0 ss bs"
    "storage w' = last (s0 # ss)"
    by auto
  then show ?thesis
    by (auto simp add: fetchedInOrder_def)
qed

theorem GetAllBackups_one_record_per_prefix_witness:
  "ListCommonPrefixes (objectStorage memService) ''bkt'' ''/''
       (storage (memWorld [((''bkt'', ''a/ark-backup.json''), ''backup:a''),
                           ((''bkt'', ''a/a.tar.gz''), ''data''),
                           ((''bkt'', ''b/ark-backup.json''), ''backup:b'')] [] []))
     = (Inr [''a'', ''b''],
        memState [((''bkt'', ''a/ark-backup.json''), ''backup:a''),
                  ((''bkt'', ''a/a.tar.gz''), ''data''),
                  ((''bkt'', ''b/ark-backup.json''), ''backup:b'')] [] [])
   \<and> GetAllBackups memService testDecoder ''bkt''
       (memWorld [((''bkt'', ''a/ark-backup.json''), ''backup:a''),
                  ((''bkt'', ''a/a.tar.gz''), ''data''),
                  ((''bkt'', ''b/ark-backup.json''), ''backup:b'')] [] [])
     = ((Some [''a'', ''b''], None),
        \<lparr>storage = memState [((''bkt'', ''a/ark-backup.json''), ''backup:a''),
                              ((''bkt'', ''a/a.tar.gz''), ''data''),
                              ((''bkt'', ''b/ark-backup.json''), ''backup:b'')] [] [],
         calls = [ListCommonPrefixesCall ''bkt'' ''/'',
                  GetObjectCall ''bkt'' ''a/ark-backup.json'',
                  GetObjectCall ''bkt'' ''b/ark-backup.json''],
         glog = []\<rparr>)
   \<and> (\<exists>bs ss. Some [''a'', ''b''] = Some bs \<and> length bs = length [''a'', ''b'']
         \<and> fetchedInOrder (objectStorage memService) testDecoder ''bkt'' [''a'', ''b'']
              (memState [((''bkt'', ''a/ark-backup.json''), ''backup:a''),
                         ((''bkt'', ''a/a.tar.gz''), ''data''),
                         ((''bkt'', ''b/ark-backup.json''), ''backup:b'')] [] []) ss bs)"
proof -
  let ?s = "memState [((''bkt'', ''a/ark-backup.json''), ''backup:a''),
                      ((''bkt'', ''a/a.tar.gz''), ''data''),
                      ((''bkt'', ''b/ark-backup.json''), ''backup:b'')] [] []"
  let ?w = "memWorld [((''bkt'', ''a/ark-backup.json''), ''backup:a''),
                      ((''bkt'', ''a/a.tar.gz''), ''data''),
                      ((''bkt'', ''b/ark-backup.json''), ''backup:b'')] [] []"
  have h1: "ListCommonPrefixes (objectStorage memService) ''bkt'' ''/'' (storage ?w)
              = (Inr [''a'', ''b''], ?s)"
    by (simp add: mem_defs)
  have h2: "GetAllBackups memService testDecoder ''bkt'' ?w
     = ((Some [''a'', ''b''], None),
        \<lparr>storage = ?s,
         calls = [ListCommonPrefixesCall ''bkt'' ''/'',
                  GetObjectCall ''bkt'' ''a/ark-backup.json'',
                  GetObjectCall ''bkt'' ''b/ark-backup.json''],
         glog = []\<rparr>)"
    by (simp add: eval_defs mem_defs)
  show ?thesis
    using h1 h2 GetAllBackups_one_record_per_prefix [OF h1 h2]
    by auto
qed

subsection \<open>The cache-backed service\<close>

text \<open>
  C3. After any run of the cache-backed service from its construction, \<open>GetAllBackups\<close>
  returns the error \<open>nil\<close> and the snapshot of the most recent successful refresh of the
  bucket, the empty collection if no refresh of the bucket has succeeded yet. The
  failures of the refreshes are in the observability channel, in order, and nowhere in
  what a read returns.
\<close>

theorem cachedBackupService_GetAllBackups_never_errors:
  assumes "run (NewBackupServiceWithCachedBackupGetter br decoder period, w, []) evs
             = (c, w', h)"
  shows "cachedBackupService_GetAllBackups c bucketName
           = (Some (lastSnapshot bucketName h), None)
         \<and> reported (cache c) = refreshFailures h"
proof -
  have "cacheAgrees (c, w', h)"
    using cacheAgrees_run [OF cacheAgrees_init, of br decoder period w evs] assms by simp
  then show ?thesis
    by (auto simp add: cacheAgrees_def cachedBackupService_GetAllBackups_def
        backupCache_GetAllBackups_def lastSnapshot_def split: list.splits option.splits)
qed

theorem cachedBackupService_GetAllBackups_never_errors_witness:
  "snd (snd (run (NewBackupServiceWithCachedBackupGetter memService testDecoder 60,
               memWorld [((''bkt'', ''a/ark-backup.json''), ''garbage'')] [] [], [])
          [Refresh ''bkt'',
           Outside (\<lambda>w. w\<lparr>storage :=
             memState [((''bkt'', ''a/ark-backup.json''), ''backup:a'')] [] []\<rparr>),
           Refresh ''bkt'',
           Outside (\<lambda>w. w\<lparr>storage :=
             memState [((''bkt'', ''a/ark-backup.json''), ''garbage'')] [] []\<rparr>),
           Refresh ''bkt'']))
     = [(''bkt'', (None, Some (ErrorString ''invalid character in payload''))),
        (''bkt'', (Some [''a''], None)),
        (''bkt'', (None, Some (ErrorString ''invalid character in payload'')))]
   \<and> cachedBackupService_GetAllBackups
       (fst (run (NewBackupServiceWithCachedBackupGetter memService testDecoder 60,
               memWorld [((''bkt'', ''a/ark-backup.json''), ''garbage'')] [] [], [])
          [Refresh ''bkt'',
           Outside (\<lambda>w. w\<lparr>storage :=
             memState [((''bkt'', ''a/ark-backup.json''), ''backup:a'')] [] []\<rparr>),
           Refresh ''bkt'',
           Outside (\<lambda>w. w\<lparr>storage :=
             memState [((''bkt'', ''a/ark-backup.json''), ''garbage'')] [] []\<rparr>),
           Refresh ''bkt''])) ''bkt''
     = (Some [''a''], None)
   \<and> reported (cache
       (fst (run (NewBackupServiceWithCachedBackupGetter memService testDecoder 60,
               memWorld [((''bkt'', ''a/ark-backup.json''), ''garbage'')] [] [], [])
          [Refresh ''bkt'',
           Outside (\<lambda>w. w\<lparr>storage :=
             memState [((''bkt'', ''a/ark-backup.json''), ''backup:a'')] [] []\<rparr>),
           Refresh ''bkt'',
           Outside (\<lambda>w. w\<lparr>storage :=
             memState [((''bkt'', ''a/ark-backup.json''), ''garbage'')] [] []\<rparr>),
           Refresh ''bkt''])))
     = [ErrorString ''invalid character in payload'',
        ErrorString ''invalid character in payload'']"
proof -
  let ?evs = "[Refresh ''bkt'',
           Outside (\<lambda>w. w\<lparr>storage :=
             memState [((''bkt'', ''a/ark-backup.json''), ''backup:a'')] [] []\<rparr>),
           Refresh ''bkt'',
           Outside (\<lambda>w. w\<lparr>storage :=
             memState [((''bkt'', ''a/ark-backup.json''), ''garbage'')] [] []\<rparr>),
           Refresh ''bkt'']"
  let ?r = "run (NewBackupServiceWithCachedBackupGetter memService testDecoder 60,
               memWorld [((''bkt'', ''a/ark-backup.json''), ''garbage'')] [] [], []) ?evs"
  have h: "snd (snd ?r)
     = [(''bkt'', (None, Some (ErrorString ''invalid character in payload''))),
        (''bkt'', (Some [''a''], None)),
        (''bkt'', (None, Some (ErrorString ''invalid character in payload'')))]"
    by (simp add: run_def backupCache_refresh_def NewBackupServiceWithCachedBackupGetter_def
        NewBackupCache_def eval_defs mem_defs)
  have c: "?r = (fst ?r, fst (snd ?r), snd (snd ?r))"
    by simp
  show ?thesis
    using h cachedBackupService_GetAllBackups_never_errors [OF c, of "''bkt''"]
    by (simp add: lastSnapshot_def succeeded_def collection_def refreshFailures_def)
qed

end
